theory Spec2Isabelle
  imports Main
begin

unbundle bit_operations_syntax

section \<open>Constants imported by \<^verbatim>\<open>climate.py\<close>\<close>

text \<open>
  The module imports its mode names, feature flags and default temperature bounds from the
  host framework (\<^verbatim>\<open>homeassistant.components.climate.const\<close>), which is not part of
  this repository. They are written here with the values that package gives them: the mode
  names are seven different strings, the feature flags are single bits, and the default
  bounds are in degrees Celsius.
\<close>

definition HVAC_MODE_OFF :: string where
  "HVAC_MODE_OFF = ''off''"

definition HVAC_MODE_HEAT :: string where
  "HVAC_MODE_HEAT = ''heat''"

definition HVAC_MODE_COOL :: string where
  "HVAC_MODE_COOL = ''cool''"

definition HVAC_MODE_HEAT_COOL :: string where
  "HVAC_MODE_HEAT_COOL = ''heat_cool''"

definition HVAC_MODE_AUTO :: string where
  "HVAC_MODE_AUTO = ''auto''"

definition HVAC_MODE_DRY :: string where
  "HVAC_MODE_DRY = ''dry''"

definition HVAC_MODE_FAN_ONLY :: string where
  "HVAC_MODE_FAN_ONLY = ''fan_only''"

definition SUPPORT_TARGET_TEMPERATURE :: int where
  "SUPPORT_TARGET_TEMPERATURE = 1"

definition SUPPORT_FAN_MODE :: int where
  "SUPPORT_FAN_MODE = 8"

definition SUPPORT_SWING_MODE :: int where
  "SUPPORT_SWING_MODE = 32"

definition DEFAULT_MIN_TEMP :: int where
  "DEFAULT_MIN_TEMP = 7"

definition DEFAULT_MAX_TEMP :: int where
  "DEFAULT_MAX_TEMP = 35"

text \<open>
  \<^verbatim>\<open>ACMode\<close> is the vendor library's enumeration of operation modes. Only the six
  members that \<^verbatim>\<open>climate.py\<close> refers to are listed; \<^verbatim>\<open>.name\<close> of an enumeration
  member is its identifier.
\<close>

datatype ACMode = COOL | DRY | FAN | HEAT | ACO | AI

fun ACMode_name :: "ACMode \<Rightarrow> string" where
  "ACMode_name COOL = ''COOL''"
| "ACMode_name DRY = ''DRY''"
| "ACMode_name FAN = ''FAN''"
| "ACMode_name HEAT = ''HEAT''"
| "ACMode_name ACO = ''ACO''"
| "ACMode_name AI = ''AI''"

section \<open>The mode translation tables\<close>

text \<open>
  A dictionary built from a sequence of key/value pairs: each pair is stored in turn, so a
  later pair replaces an earlier one with the same key. Both the dictionary display of
  \<^verbatim>\<open>HVAC_MODE_LOOKUP\<close> and the comprehension of \<^verbatim>\<open>HVAC_MODE_REVERSE_LOOKUP\<close>
  build their dictionary this way.
\<close>

fun dict_store :: "('k \<rightharpoonup> 'v) \<Rightarrow> ('k \<times> 'v) list \<Rightarrow> ('k \<rightharpoonup> 'v)" where
  "dict_store d [] = d"
| "dict_store d ((k, v) # kvs) = dict_store (d(k \<mapsto> v)) kvs"

definition HVAC_MODE_LOOKUP_items :: "(string \<times> string) list" where
  "HVAC_MODE_LOOKUP_items =
     [(ACMode_name AI, HVAC_MODE_AUTO),
      (ACMode_name HEAT, HVAC_MODE_HEAT),
      (ACMode_name DRY, HVAC_MODE_DRY),
      (ACMode_name COOL, HVAC_MODE_COOL),
      (ACMode_name FAN, HVAC_MODE_FAN_ONLY),
      (ACMode_name ACO, HVAC_MODE_HEAT_COOL)]"

definition HVAC_MODE_LOOKUP :: "string \<rightharpoonup> string" where
  "HVAC_MODE_LOOKUP = dict_store Map.empty HVAC_MODE_LOOKUP_items"

text \<open>\<^verbatim>\<open>{v: k for k, v in HVAC_MODE_LOOKUP.items()}\<close>\<close>

definition HVAC_MODE_REVERSE_LOOKUP :: "string \<rightharpoonup> string" where
  "HVAC_MODE_REVERSE_LOOKUP =
     dict_store Map.empty (map (\<lambda>(k, v). (v, k)) HVAC_MODE_LOOKUP_items)"

section \<open>The device handle, the protocol device and the entity\<close>

text \<open>
  The calls that the entity issues to the protocol device. The device itself is outside this
  module, so a call is recorded in the order it is issued.
\<close>

datatype device_call = Power bool | SetOpMode string

text \<open>
  The protocol device (\<^verbatim>\<open>self._device\<close>): its capability lists, its optional temperature
  bounds, its unit conversion and the log of calls it has received. The temperature type is
  left open, since this module only passes temperatures on.
\<close>

record 't AirConditionerDevice =
  op_modes :: "string list"
  vert_swing_modes :: "string list"
  target_temperature_min :: "'t option"
  target_temperature_max :: "'t option"
  conv_temp_unit :: "int \<Rightarrow> 't"
  calls :: "device_call list"

text \<open>The cached state of the device handle (\<^verbatim>\<open>self._api.state\<close>).\<close>

record AirConditionerStatus =
  is_on :: bool
  operation_mode :: "string option"

record 't LGEACClimate =
  api_state :: AirConditionerStatus
  device :: "'t AirConditionerDevice"

definition power :: "bool \<Rightarrow> 't AirConditionerDevice \<Rightarrow> 't AirConditionerDevice" where
  "power turn_on d = d\<lparr>calls := calls d @ [Power turn_on]\<rparr>"

definition set_op_mode :: "string \<Rightarrow> 't AirConditionerDevice \<Rightarrow> 't AirConditionerDevice" where
  "set_op_mode mode d = d\<lparr>calls := calls d @ [SetOpMode mode]\<rparr>"

datatype error = ValueError string

section \<open>The entity's operations\<close>

text \<open>
  \<^verbatim>\<open>hvac_mode\<close> returns a mode name or, from \<^verbatim>\<open>dict.get\<close> on a missing key,
  \<^verbatim>\<open>None\<close>. The lookup is reached only with a mode that is not \<^verbatim>\<open>None\<close>; on
  \<^verbatim>\<open>None\<close>, which is no key of the table, \<^verbatim>\<open>dict.get\<close> would return \<^verbatim>\<open>None\<close>.
\<close>

definition hvac_mode :: "'t LGEACClimate \<Rightarrow> string option" where
  "hvac_mode self =
     (let mode = operation_mode (api_state self) in
      if \<not> is_on (api_state self) \<or> mode = None then Some HVAC_MODE_OFF
      else (case mode of None \<Rightarrow> None | Some m \<Rightarrow> HVAC_MODE_LOOKUP m))"

text \<open>
  \<^verbatim>\<open>set_hvac_mode\<close> returns the raised error or \<^verbatim>\<open>None\<close>, together with the entity
  as the call leaves it.
\<close>

definition set_hvac_mode ::
  "'t LGEACClimate \<Rightarrow> string \<Rightarrow> (error + unit) \<times> 't LGEACClimate" where
  "set_hvac_mode self new_mode =
     (if new_mode = HVAC_MODE_OFF then
        (Inr (), self\<lparr>device := power False (device self)\<rparr>)
      else
        (case HVAC_MODE_REVERSE_LOOKUP new_mode of
           None \<Rightarrow> (Inl (ValueError (''Invalid hvac_mode ['' @ new_mode @ '']'')), self)
         | Some vendor_mode \<Rightarrow>
             (let self1 =
                (if hvac_mode self = Some HVAC_MODE_OFF
                 then self\<lparr>device := power True (device self)\<rparr>
                 else self)
              in (Inr (), self1\<lparr>device := set_op_mode vendor_mode (device self1)\<rparr>))))"

definition hvac_modes :: "'t LGEACClimate \<Rightarrow> string option list" where
  "hvac_modes self =
     [Some HVAC_MODE_OFF] @
     [HVAC_MODE_LOOKUP mode. mode \<leftarrow> op_modes (device self), HVAC_MODE_LOOKUP mode \<noteq> None]"

definition supported_features :: "'t LGEACClimate \<Rightarrow> int" where
  "supported_features self =
     (let features = SUPPORT_FAN_MODE OR SUPPORT_TARGET_TEMPERATURE in
      if length (vert_swing_modes (device self)) > 1
      then features OR SUPPORT_SWING_MODE
      else features)"

definition min_temp :: "'t LGEACClimate \<Rightarrow> 't" where
  "min_temp self =
     (case target_temperature_min (device self) of
        Some min_value \<Rightarrow> min_value
      | None \<Rightarrow> conv_temp_unit (device self) DEFAULT_MIN_TEMP)"

definition max_temp :: "'t LGEACClimate \<Rightarrow> 't" where
  "max_temp self =
     (case target_temperature_max (device self) of
        Some max_value \<Rightarrow> max_value
      | None \<Rightarrow> conv_temp_unit (device self) DEFAULT_MAX_TEMP)"

section \<open>Facts about the tables\<close>

lemma HVAC_MODE_LOOKUP_apply:
  "HVAC_MODE_LOOKUP k =
     (if k = ''ACO'' then Some ''heat_cool''
      else if k = ''FAN'' then Some ''fan_only''
      else if k = ''COOL'' then Some ''cool''
      else if k = ''DRY'' then Some ''dry''
      else if k = ''HEAT'' then Some ''heat''
      else if k = ''AI'' then Some ''auto''
      else None)"
  by (simp add: HVAC_MODE_LOOKUP_def HVAC_MODE_LOOKUP_items_def HVAC_MODE_AUTO_def
      HVAC_MODE_HEAT_def HVAC_MODE_DRY_def HVAC_MODE_COOL_def HVAC_MODE_FAN_ONLY_def
      HVAC_MODE_HEAT_COOL_def)

lemma HVAC_MODE_REVERSE_LOOKUP_apply:
  "HVAC_MODE_REVERSE_LOOKUP h =
     (if h = ''heat_cool'' then Some ''ACO''
      else if h = ''fan_only'' then Some ''FAN''
      else if h = ''cool'' then Some ''COOL''
      else if h = ''dry'' then Some ''DRY''
      else if h = ''heat'' then Some ''HEAT''
      else if h = ''auto'' then Some ''AI''
      else None)"
  by (simp add: HVAC_MODE_REVERSE_LOOKUP_def HVAC_MODE_LOOKUP_items_def HVAC_MODE_AUTO_def
      HVAC_MODE_HEAT_def HVAC_MODE_DRY_def HVAC_MODE_COOL_def HVAC_MODE_FAN_ONLY_def
      HVAC_MODE_HEAT_COOL_def)

text \<open>
  The keys of the dictionary display are pairwise distinct, so \<^verbatim>\<open>.items()\<close> yields
  exactly the pairs of \<open>HVAC_MODE_LOOKUP_items\<close>, in that order.
\<close>

lemma HVAC_MODE_LOOKUP_items_distinct: "distinct (map fst HVAC_MODE_LOOKUP_items)"
  by (simp add: HVAC_MODE_LOOKUP_items_def)

lemma HVAC_MODE_LOOKUP_not_off: "HVAC_MODE_LOOKUP m \<noteq> Some HVAC_MODE_OFF"
  by (simp add: HVAC_MODE_LOOKUP_apply HVAC_MODE_OFF_def)

text \<open>The getter reports off exactly when the device is not on or has no operation mode.\<close>

lemma hvac_mode_off_iff:
  "hvac_mode self = Some HVAC_MODE_OFF \<longleftrightarrow>
     \<not> is_on (api_state self) \<or> operation_mode (api_state self) = None"
  by (auto simp add: hvac_mode_def Let_def HVAC_MODE_LOOKUP_not_off split: option.splits)

section \<open>Setting the mode\<close>

text \<open>
  C1. For every input string that is not the off mode and has no entry in the reverse
  translation table, \<^verbatim>\<open>set_hvac_mode\<close> raises a \<^verbatim>\<open>ValueError\<close> whose message names
  the input: the message is \<^verbatim>\<open>Invalid hvac_mode [\<close>, the input, \<^verbatim>\<open>]\<close>.
\<close>

theorem set_hvac_mode_unrecognized_raises:
  assumes "new_mode \<noteq> HVAC_MODE_OFF"
    and "HVAC_MODE_REVERSE_LOOKUP new_mode = None"
  shows "fst (set_hvac_mode self new_mode) =
           Inl (ValueError (''Invalid hvac_mode ['' @ new_mode @ '']''))"
  using assms by (simp add: set_hvac_mode_def)

theorem set_hvac_mode_unrecognized_raises_witness:
  "''turbo'' \<noteq> HVAC_MODE_OFF \<and> HVAC_MODE_REVERSE_LOOKUP ''turbo'' = None \<and>
   fst (set_hvac_mode
          \<lparr>api_state = \<lparr>is_on = True, operation_mode = Some ''COOL''\<rparr>,
           device = \<lparr>op_modes = [''COOL'', ''HEAT''], vert_swing_modes = [],
                     target_temperature_min = Some (16::int),
                     target_temperature_max = Some 30,
                     conv_temp_unit = (\<lambda>c. c), calls = []\<rparr>\<rparr>
          ''turbo'')
     = Inl (ValueError ''Invalid hvac_mode [turbo]'')"
proof -
  have not_off: "''turbo'' \<noteq> HVAC_MODE_OFF"
    by (simp add: HVAC_MODE_OFF_def)
  have unknown: "HVAC_MODE_REVERSE_LOOKUP ''turbo'' = None"
    by (simp add: HVAC_MODE_REVERSE_LOOKUP_apply)
  show ?thesis
    using not_off unknown set_hvac_mode_unrecognized_raises [OF not_off unknown]
    by simp
qed

text \<open>
  C2. Called with the off mode, \<^verbatim>\<open>set_hvac_mode\<close> issues exactly one call to the
  protocol device, a power-off, and no set-op-mode call, whatever the state of the entity.
\<close>

theorem set_hvac_mode_off_powers_off:
  "set_hvac_mode self HVAC_MODE_OFF =
     (Inr (), self\<lparr>device := (device self)\<lparr>calls := calls (device self) @ [Power False]\<rparr>\<rparr>)"
  by (simp add: set_hvac_mode_def power_def)

text \<open>
  C3. For a recognized mode other than off, when the entity's current \<^verbatim>\<open>hvac_mode\<close> is
  off, \<^verbatim>\<open>set_hvac_mode\<close> issues a power-on call and then the set-op-mode call, in that
  order and nothing else.
\<close>

theorem set_hvac_mode_from_off_powers_on_first:
  assumes "new_mode \<noteq> HVAC_MODE_OFF"
    and "HVAC_MODE_REVERSE_LOOKUP new_mode = Some vendor_mode"
    and "hvac_mode self = Some HVAC_MODE_OFF"
  shows "set_hvac_mode self new_mode =
           (Inr (), self\<lparr>device := (device self)\<lparr>calls :=
              calls (device self) @ [Power True, SetOpMode vendor_mode]\<rparr>\<rparr>)"
  using assms by (simp add: set_hvac_mode_def power_def set_op_mode_def)

theorem set_hvac_mode_from_off_powers_on_first_witness:
  "''cool'' \<noteq> HVAC_MODE_OFF \<and> HVAC_MODE_REVERSE_LOOKUP ''cool'' = Some ''COOL'' \<and>
   hvac_mode
     \<lparr>api_state = \<lparr>is_on = False, operation_mode = Some ''HEAT''\<rparr>,
      device = \<lparr>op_modes = [''COOL'', ''HEAT''], vert_swing_modes = [],
                target_temperature_min = Some (16::int),
                target_temperature_max = Some 30,
                conv_temp_unit = (\<lambda>c. c), calls = [Power False]\<rparr>\<rparr>
     = Some HVAC_MODE_OFF \<and>
   calls (device (snd (set_hvac_mode
     \<lparr>api_state = \<lparr>is_on = False, operation_mode = Some ''HEAT''\<rparr>,
      device = \<lparr>op_modes = [''COOL'', ''HEAT''], vert_swing_modes = [],
                target_temperature_min = Some (16::int),
                target_temperature_max = Some 30,
                conv_temp_unit = (\<lambda>c. c), calls = [Power False]\<rparr>\<rparr>
     ''cool'')))
     = [Power False, Power True, SetOpMode ''COOL'']"
proof -
  let ?self = "\<lparr>api_state = \<lparr>is_on = False, operation_mode = Some ''HEAT''\<rparr>,
      device = \<lparr>op_modes = [''COOL'', ''HEAT''], vert_swing_modes = [],
                target_temperature_min = Some (16::int),
                target_temperature_max = Some 30,
                conv_temp_unit = (\<lambda>c. c), calls = [Power False]\<rparr>\<rparr>"
  have not_off: "''cool'' \<noteq> HVAC_MODE_OFF"
    by (simp add: HVAC_MODE_OFF_def)
  have known: "HVAC_MODE_REVERSE_LOOKUP ''cool'' = Some ''COOL''"
    by (simp add: HVAC_MODE_REVERSE_LOOKUP_apply)
  have is_off: "hvac_mode ?self = Some HVAC_MODE_OFF"
    by (simp add: hvac_mode_def)
  show ?thesis
    using not_off known is_off
      set_hvac_mode_from_off_powers_on_first [OF not_off known is_off]
    by simp
qed

text \<open>
  C8. When \<^verbatim>\<open>set_hvac_mode\<close> raises, it is the \<^verbatim>\<open>ValueError\<close> for the given mode,
  and no call has been issued to the protocol device: the entity, with the device's call
  log, is as it was.
\<close>

theorem set_hvac_mode_error_no_call:
  assumes "set_hvac_mode self new_mode = (Inl e, self')"
  shows "self' = self \<and> e = ValueError (''Invalid hvac_mode ['' @ new_mode @ '']'')"
  using assms by (auto simp add: set_hvac_mode_def Let_def split: if_splits option.splits)

theorem set_hvac_mode_error_no_call_witness:
  "fst (set_hvac_mode
     \<lparr>api_state = \<lparr>is_on = False, operation_mode = None\<rparr>,
      device = \<lparr>op_modes = [''COOL'', ''HEAT''], vert_swing_modes = [],
                target_temperature_min = Some (16::int),
                target_temperature_max = Some 30,
                conv_temp_unit = (\<lambda>c. c), calls = [Power False]\<rparr>\<rparr>
     ''Cool'')
   = Inl (ValueError ''Invalid hvac_mode [Cool]'') \<and>
   snd (set_hvac_mode
     \<lparr>api_state = \<lparr>is_on = False, operation_mode = None\<rparr>,
      device = \<lparr>op_modes = [''COOL'', ''HEAT''], vert_swing_modes = [],
                target_temperature_min = Some (16::int),
                target_temperature_max = Some 30,
                conv_temp_unit = (\<lambda>c. c), calls = [Power False]\<rparr>\<rparr>
     ''Cool'')
   = \<lparr>api_state = \<lparr>is_on = False, operation_mode = None\<rparr>,
      device = \<lparr>op_modes = [''COOL'', ''HEAT''], vert_swing_modes = [],
                target_temperature_min = Some (16::int),
                target_temperature_max = Some 30,
                conv_temp_unit = (\<lambda>c. c), calls = [Power False]\<rparr>\<rparr>"
proof -
  let ?self = "\<lparr>api_state = \<lparr>is_on = False, operation_mode = None\<rparr>,
      device = \<lparr>op_modes = [''COOL'', ''HEAT''], vert_swing_modes = [],
                target_temperature_min = Some (16::int),
                target_temperature_max = Some 30,
                conv_temp_unit = (\<lambda>c. c), calls = [Power False]\<rparr>\<rparr>"
  have raised: "fst (set_hvac_mode ?self ''Cool'') =
      Inl (ValueError ''Invalid hvac_mode [Cool]'')"
    by (simp add: set_hvac_mode_def HVAC_MODE_OFF_def HVAC_MODE_REVERSE_LOOKUP_apply)
  then have pair: "set_hvac_mode ?self ''Cool'' =
      (Inl (ValueError ''Invalid hvac_mode [Cool]''), snd (set_hvac_mode ?self ''Cool''))"
    by (simp add: prod_eq_iff)
  have "snd (set_hvac_mode ?self ''Cool'') = ?self"
    using set_hvac_mode_error_no_call [OF pair] by (rule conjunct1)
  with raised show ?thesis
    by (rule conjI)
qed

section \<open>The translation tables are inverse to each other\<close>

text \<open>
  C4. For every vendor mode key of \<^verbatim>\<open>HVAC_MODE_LOOKUP\<close>, the reverse lookup of its image
  is the key again; and for every host mode key of \<^verbatim>\<open>HVAC_MODE_REVERSE_LOOKUP\<close>, the
  forward lookup of its image is the host mode again.
\<close>

theorem HVAC_MODE_lookups_inverse:
  "(HVAC_MODE_LOOKUP k = Some h \<longrightarrow> HVAC_MODE_REVERSE_LOOKUP h = Some k) \<and>
   (HVAC_MODE_REVERSE_LOOKUP h' = Some k' \<longrightarrow> HVAC_MODE_LOOKUP k' = Some h')"
proof
  show "HVAC_MODE_LOOKUP k = Some h \<longrightarrow> HVAC_MODE_REVERSE_LOOKUP h = Some k"
    by (auto simp add: HVAC_MODE_LOOKUP_apply HVAC_MODE_REVERSE_LOOKUP_apply
        split: if_splits)
  show "HVAC_MODE_REVERSE_LOOKUP h' = Some k' \<longrightarrow> HVAC_MODE_LOOKUP k' = Some h'"
    by (auto simp add: HVAC_MODE_LOOKUP_apply HVAC_MODE_REVERSE_LOOKUP_apply
        split: if_splits)
qed

theorem HVAC_MODE_lookups_inverse_witness:
  "HVAC_MODE_LOOKUP (ACMode_name FAN) = Some HVAC_MODE_FAN_ONLY \<and>
   HVAC_MODE_REVERSE_LOOKUP HVAC_MODE_FAN_ONLY = Some (ACMode_name FAN) \<and>
   HVAC_MODE_REVERSE_LOOKUP HVAC_MODE_HEAT_COOL = Some (ACMode_name ACO) \<and>
   HVAC_MODE_LOOKUP (ACMode_name ACO) = Some HVAC_MODE_HEAT_COOL"
proof -
  have fwd: "HVAC_MODE_LOOKUP (ACMode_name FAN) = Some HVAC_MODE_FAN_ONLY"
    by (simp add: HVAC_MODE_LOOKUP_apply HVAC_MODE_FAN_ONLY_def)
  have bwd: "HVAC_MODE_REVERSE_LOOKUP HVAC_MODE_HEAT_COOL = Some (ACMode_name ACO)"
    by (simp add: HVAC_MODE_REVERSE_LOOKUP_apply HVAC_MODE_HEAT_COOL_def)
  show ?thesis
    using fwd bwd
      HVAC_MODE_lookups_inverse [of "ACMode_name FAN" HVAC_MODE_FAN_ONLY
        HVAC_MODE_HEAT_COOL "ACMode_name ACO"]
    by blast
qed

text \<open>
  C7 claims that each of the seven host modes off, auto, heat, cool, dry, fan-only and
  heat-cool has a vendor counterpart under reverse lookup. The off mode has none: the tables
  hold six pairs, and off is not among them.
\<close>

theorem HVAC_MODE_REVERSE_LOOKUP_off_missing:
  "HVAC_MODE_REVERSE_LOOKUP HVAC_MODE_OFF = None"
  by (simp add: HVAC_MODE_REVERSE_LOOKUP_apply HVAC_MODE_OFF_def)

text \<open>
  C7, as the code has it. Each of the six host modes auto, heat, cool, dry, fan-only and
  heat-cool has a vendor counterpart under reverse lookup, and translating that counterpart
  forward returns the same host mode. The off mode is outside the tables: it has no entry in
  the reverse table and is the image of no vendor mode (the entity handles it by powering
  the device off).
\<close>

theorem HVAC_MODE_tables_cover_non_off:
  "(\<forall>h \<in> set [HVAC_MODE_AUTO, HVAC_MODE_HEAT, HVAC_MODE_COOL, HVAC_MODE_DRY,
               HVAC_MODE_FAN_ONLY, HVAC_MODE_HEAT_COOL].
      \<exists>k. HVAC_MODE_REVERSE_LOOKUP h = Some k \<and> HVAC_MODE_LOOKUP k = Some h) \<and>
   HVAC_MODE_REVERSE_LOOKUP HVAC_MODE_OFF = None \<and>
   HVAC_MODE_LOOKUP m \<noteq> Some HVAC_MODE_OFF"
proof -
  have covered: "\<forall>h \<in> set [HVAC_MODE_AUTO, HVAC_MODE_HEAT, HVAC_MODE_COOL, HVAC_MODE_DRY,
               HVAC_MODE_FAN_ONLY, HVAC_MODE_HEAT_COOL].
      \<exists>k. HVAC_MODE_REVERSE_LOOKUP h = Some k \<and> HVAC_MODE_LOOKUP k = Some h"
    by (simp add: HVAC_MODE_LOOKUP_apply HVAC_MODE_REVERSE_LOOKUP_apply HVAC_MODE_AUTO_def
        HVAC_MODE_HEAT_def HVAC_MODE_COOL_def HVAC_MODE_DRY_def HVAC_MODE_FAN_ONLY_def
        HVAC_MODE_HEAT_COOL_def)
  have off_missing: "HVAC_MODE_REVERSE_LOOKUP HVAC_MODE_OFF = None"
    by (simp add: HVAC_MODE_REVERSE_LOOKUP_apply HVAC_MODE_OFF_def)
  from covered off_missing HVAC_MODE_LOOKUP_not_off [of m] show ?thesis
    by blast
qed

theorem HVAC_MODE_tables_cover_non_off_witness:
  "HVAC_MODE_DRY \<in> set [HVAC_MODE_AUTO, HVAC_MODE_HEAT, HVAC_MODE_COOL, HVAC_MODE_DRY,
                        HVAC_MODE_FAN_ONLY, HVAC_MODE_HEAT_COOL] \<and>
   (\<exists>k. HVAC_MODE_REVERSE_LOOKUP HVAC_MODE_DRY = Some k \<and>
        HVAC_MODE_LOOKUP k = Some HVAC_MODE_DRY)"
proof -
  have listed: "HVAC_MODE_DRY \<in> set [HVAC_MODE_AUTO, HVAC_MODE_HEAT, HVAC_MODE_COOL,
      HVAC_MODE_DRY, HVAC_MODE_FAN_ONLY, HVAC_MODE_HEAT_COOL]"
    by simp
  show ?thesis
    using listed HVAC_MODE_tables_cover_non_off [of "''COOL''"] by blast
qed

section \<open>Reading the mode\<close>

text \<open>
  C9. The \<^verbatim>\<open>hvac_mode\<close> getter raises nothing (it is a total function with no error
  result). If the device is not on or its operation mode is unset it returns the off mode;
  if the device is on with an operation mode it returns the table's entry for that mode,
  which is \<^verbatim>\<open>None\<close> when the mode has no entry.
\<close>

theorem hvac_mode_cases:
  "(\<not> is_on (api_state self) \<or> operation_mode (api_state self) = None \<longrightarrow>
      hvac_mode self = Some HVAC_MODE_OFF) \<and>
   (is_on (api_state self) \<and> operation_mode (api_state self) = Some m \<longrightarrow>
      hvac_mode self = HVAC_MODE_LOOKUP m) \<and>
   (is_on (api_state self) \<and> operation_mode (api_state self) = Some m \<and>
    HVAC_MODE_LOOKUP m = None \<longrightarrow>
      hvac_mode self = None)"
  by (simp add: hvac_mode_def)

theorem hvac_mode_cases_witness:
  "hvac_mode
     \<lparr>api_state = \<lparr>is_on = False, operation_mode = Some ''COOL''\<rparr>,
      device = \<lparr>op_modes = [''COOL''], vert_swing_modes = [],
                target_temperature_min = Some (16::int), target_temperature_max = Some 30,
                conv_temp_unit = (\<lambda>c. c), calls = []\<rparr>\<rparr>
     = Some HVAC_MODE_OFF \<and>
   hvac_mode
     \<lparr>api_state = \<lparr>is_on = True, operation_mode = Some ''COOL''\<rparr>,
      device = \<lparr>op_modes = [''COOL''], vert_swing_modes = [],
                target_temperature_min = Some (16::int), target_temperature_max = Some 30,
                conv_temp_unit = (\<lambda>c. c), calls = []\<rparr>\<rparr>
     = Some HVAC_MODE_COOL \<and>
   HVAC_MODE_LOOKUP ''ENERGY_SAVING'' = None \<and>
   hvac_mode
     \<lparr>api_state = \<lparr>is_on = True, operation_mode = Some ''ENERGY_SAVING''\<rparr>,
      device = \<lparr>op_modes = [''COOL''], vert_swing_modes = [],
                target_temperature_min = Some (16::int), target_temperature_max = Some 30,
                conv_temp_unit = (\<lambda>c. c), calls = []\<rparr>\<rparr>
     = None"
proof -
  let ?device = "\<lparr>op_modes = [''COOL''], vert_swing_modes = [],
                target_temperature_min = Some (16::int), target_temperature_max = Some 30,
                conv_temp_unit = (\<lambda>c. c), calls = []\<rparr>"
  have cool: "HVAC_MODE_LOOKUP ''COOL'' = Some HVAC_MODE_COOL"
    by (simp add: HVAC_MODE_LOOKUP_apply HVAC_MODE_COOL_def)
  have unknown: "HVAC_MODE_LOOKUP ''ENERGY_SAVING'' = None"
    by (simp add: HVAC_MODE_LOOKUP_apply)
  show ?thesis
    using cool unknown
      hvac_mode_cases [of "\<lparr>api_state = \<lparr>is_on = False, operation_mode = Some ''COOL''\<rparr>,
        device = ?device\<rparr>" "''COOL''"]
      hvac_mode_cases [of "\<lparr>api_state = \<lparr>is_on = True, operation_mode = Some ''COOL''\<rparr>,
        device = ?device\<rparr>" "''COOL''"]
      hvac_mode_cases [of "\<lparr>api_state = \<lparr>is_on = True,
        operation_mode = Some ''ENERGY_SAVING''\<rparr>, device = ?device\<rparr>" "''ENERGY_SAVING''"]
    by simp
qed

section \<open>The list of available modes\<close>

lemma hvac_modes_translated:
  "x \<in> set [HVAC_MODE_LOOKUP mode. mode \<leftarrow> ms, HVAC_MODE_LOOKUP mode \<noteq> None] \<Longrightarrow>
     \<exists>mode h. mode \<in> set ms \<and> HVAC_MODE_LOOKUP mode = Some h \<and> x = Some h"
  by (induction ms) (auto split: if_splits)

text \<open>
  C10. The \<^verbatim>\<open>hvac_modes\<close> list starts with the off mode, and every element after it is
  the forward translation of an operation mode that the device reports and that has an entry
  in the translation table; \<^verbatim>\<open>None\<close> is never an element.
\<close>

theorem hvac_modes_off_then_translations:
  "hvac_modes self = Some HVAC_MODE_OFF # tl (hvac_modes self) \<and>
   (\<forall>x \<in> set (tl (hvac_modes self)).
      \<exists>mode h. mode \<in> set (op_modes (device self)) \<and>
               HVAC_MODE_LOOKUP mode = Some h \<and> x = Some h) \<and>
   None \<notin> set (hvac_modes self)"
proof -
  have first: "hvac_modes self = Some HVAC_MODE_OFF # tl (hvac_modes self)"
    by (simp add: hvac_modes_def)
  have rest: "\<forall>x \<in> set (tl (hvac_modes self)).
      \<exists>mode h. mode \<in> set (op_modes (device self)) \<and>
               HVAC_MODE_LOOKUP mode = Some h \<and> x = Some h"
    using hvac_modes_translated [of _ "op_modes (device self)"]
    by (simp add: hvac_modes_def)
  have "None \<notin> set (tl (hvac_modes self))"
    using rest by blast
  then have "None \<notin> set (Some HVAC_MODE_OFF # tl (hvac_modes self))"
    by simp
  then have "None \<notin> set (hvac_modes self)"
    using first by simp
  with first rest show ?thesis
    by blast
qed

theorem hvac_modes_off_then_translations_witness:
  "hvac_modes
     \<lparr>api_state = \<lparr>is_on = True, operation_mode = Some ''COOL''\<rparr>,
      device = \<lparr>op_modes = [''COOL'', ''ENERGY_SAVING'', ''FAN''], vert_swing_modes = [],
                target_temperature_min = Some (16::int), target_temperature_max = Some 30,
                conv_temp_unit = (\<lambda>c. c), calls = []\<rparr>\<rparr>
     = [Some HVAC_MODE_OFF, Some HVAC_MODE_COOL, Some HVAC_MODE_FAN_ONLY] \<and>
   (\<exists>mode h. mode \<in> set [''COOL'', ''ENERGY_SAVING'', ''FAN''] \<and>
             HVAC_MODE_LOOKUP mode = Some h \<and> Some HVAC_MODE_FAN_ONLY = Some h)"
proof -
  let ?self = "\<lparr>api_state = \<lparr>is_on = True, operation_mode = Some ''COOL''\<rparr>,
      device = \<lparr>op_modes = [''COOL'', ''ENERGY_SAVING'', ''FAN''], vert_swing_modes = [],
                target_temperature_min = Some (16::int), target_temperature_max = Some 30,
                conv_temp_unit = (\<lambda>c. c), calls = []\<rparr>\<rparr>"
  have listed: "hvac_modes ?self =
      [Some HVAC_MODE_OFF, Some HVAC_MODE_COOL, Some HVAC_MODE_FAN_ONLY]"
    by (simp add: hvac_modes_def HVAC_MODE_LOOKUP_apply HVAC_MODE_COOL_def
        HVAC_MODE_FAN_ONLY_def)
  then have member: "Some HVAC_MODE_FAN_ONLY \<in> set (tl (hvac_modes ?self))"
    by simp
  have "\<exists>mode h. mode \<in> set (op_modes (device ?self)) \<and>
      HVAC_MODE_LOOKUP mode = Some h \<and> Some HVAC_MODE_FAN_ONLY = Some h"
    using member hvac_modes_off_then_translations [of ?self] by blast
  then have "\<exists>mode h. mode \<in> set [''COOL'', ''ENERGY_SAVING'', ''FAN''] \<and>
      HVAC_MODE_LOOKUP mode = Some h \<and> Some HVAC_MODE_FAN_ONLY = Some h"
    by simp
  with listed show ?thesis
    by (rule conjI)
qed

section \<open>Supported features\<close>

text \<open>
  C6. \<^verbatim>\<open>supported_features\<close> always has the fan-mode flag and the target-temperature
  flag set, and has the swing-mode flag set if and only if the device reports more than one
  vertical swing mode.
\<close>

theorem supported_features_flags:
  "supported_features self AND SUPPORT_FAN_MODE = SUPPORT_FAN_MODE \<and>
   supported_features self AND SUPPORT_TARGET_TEMPERATURE = SUPPORT_TARGET_TEMPERATURE \<and>
   (supported_features self AND SUPPORT_SWING_MODE = SUPPORT_SWING_MODE) =
     (length (vert_swing_modes (device self)) > 1)"
  by (simp add: supported_features_def SUPPORT_FAN_MODE_def SUPPORT_TARGET_TEMPERATURE_def
      SUPPORT_SWING_MODE_def)

section \<open>Temperature bounds\<close>

text \<open>
  C5. \<^verbatim>\<open>min_temp\<close> returns the minimum that the device reports whenever there is one, and
  the converted default minimum when there is none; \<^verbatim>\<open>max_temp\<close> does the same with the
  device's maximum and the default maximum.
\<close>

theorem min_max_temp_fallback:
  "(target_temperature_min (device self) = Some lo \<longrightarrow> min_temp self = lo) \<and>
   (target_temperature_min (device self) = None \<longrightarrow>
      min_temp self = conv_temp_unit (device self) DEFAULT_MIN_TEMP) \<and>
   (target_temperature_max (device self) = Some hi \<longrightarrow> max_temp self = hi) \<and>
   (target_temperature_max (device self) = None \<longrightarrow>
      max_temp self = conv_temp_unit (device self) DEFAULT_MAX_TEMP)"
  by (simp add: min_temp_def max_temp_def)

theorem min_max_temp_fallback_witness:
  "min_temp
     \<lparr>api_state = \<lparr>is_on = True, operation_mode = Some ''COOL''\<rparr>,
      device = \<lparr>op_modes = [''COOL''], vert_swing_modes = [],
                target_temperature_min = Some (0::int), target_temperature_max = Some 30,
                conv_temp_unit = (\<lambda>c. c * 9 div 5 + 32), calls = []\<rparr>\<rparr> = 0 \<and>
   max_temp
     \<lparr>api_state = \<lparr>is_on = True, operation_mode = Some ''COOL''\<rparr>,
      device = \<lparr>op_modes = [''COOL''], vert_swing_modes = [],
                target_temperature_min = Some (0::int), target_temperature_max = Some 30,
                conv_temp_unit = (\<lambda>c. c * 9 div 5 + 32), calls = []\<rparr>\<rparr> = 30 \<and>
   min_temp
     \<lparr>api_state = \<lparr>is_on = True, operation_mode = Some ''COOL''\<rparr>,
      device = \<lparr>op_modes = [''COOL''], vert_swing_modes = [],
                target_temperature_min = None, target_temperature_max = None,
                conv_temp_unit = (\<lambda>c. c * 9 div 5 + 32), calls = []\<rparr>\<rparr> = (44::int) \<and>
   max_temp
     \<lparr>api_state = \<lparr>is_on = True, operation_mode = Some ''COOL''\<rparr>,
      device = \<lparr>op_modes = [''COOL''], vert_swing_modes = [],
                target_temperature_min = None, target_temperature_max = None,
                conv_temp_unit = (\<lambda>c. c * 9 div 5 + 32), calls = []\<rparr>\<rparr> = (95::int)"
  using
    min_max_temp_fallback [of
      "\<lparr>api_state = \<lparr>is_on = True, operation_mode = Some ''COOL''\<rparr>,
        device = \<lparr>op_modes = [''COOL''], vert_swing_modes = [],
                  target_temperature_min = Some (0::int), target_temperature_max = Some 30,
                  conv_temp_unit = (\<lambda>c. c * 9 div 5 + 32), calls = []\<rparr>\<rparr>" 0 30]
    min_max_temp_fallback [of
      "\<lparr>api_state = \<lparr>is_on = True, operation_mode = Some ''COOL''\<rparr>,
        device = \<lparr>op_modes = [''COOL''], vert_swing_modes = [],
                  target_temperature_min = None, target_temperature_max = None,
                  conv_temp_unit = (\<lambda>c. (c * 9 div 5 + 32 :: int)), calls = []\<rparr>\<rparr>"]
  by (simp add: DEFAULT_MIN_TEMP_def DEFAULT_MAX_TEMP_def)

end
